theory Spec2Isabelle
  imports Complex_Main
begin

section \<open>User.normalizePhone (src/models/User.js)\<close>

text \<open>
  JavaScript strings are modelled as \<^typ>\<open>string\<close>. The class \<^verbatim>\<open>\d\<close> of a JavaScript
  regular expression (without the unicode flag) is exactly the ten ASCII digits, so
  \<^verbatim>\<open>phone.replace(/\D/g, "")\<close> keeps the ASCII digits of the input, in order.
\<close>

definition is_digit :: "char \<Rightarrow> bool" where
  "is_digit c = (c \<in> set ''0123456789'')"

definition startsWith :: "string \<Rightarrow> string \<Rightarrow> bool" where
  "startsWith s p = (take (length p) s = p)"

definition digits_of :: "string \<Rightarrow> string" where
  "digits_of phone = filter is_digit phone"

definition normalizePhone :: "string \<Rightarrow> string" where
  "normalizePhone phone =
     (let cleaned = digits_of phone in
      if startsWith cleaned ''998'' then ''+'' @ cleaned
      else if length cleaned = 9 then ''+998'' @ cleaned
      else if \<not> startsWith cleaned ''+'' then ''+'' @ cleaned
      else cleaned)"

text \<open>The validator of the \<^verbatim>\<open>phone\<close> field: \<^verbatim>\<open>/^\+998\d{9}$/.test(v)\<close>.\<close>

definition valid_uz_phone :: "string \<Rightarrow> bool" where
  "valid_uz_phone v = (length v = 13 \<and> take 4 v = ''+998'' \<and> list_all is_digit (drop 4 v))"

text \<open>
  The inputs the phone property speaks about: digits, spaces, dashes and parentheses,
  behind a leading country prefix \<^verbatim>\<open>998\<close> or \<^verbatim>\<open>+998\<close>.
\<close>

definition phone_char :: "char \<Rightarrow> bool" where
  "phone_char c = (is_digit c \<or> c \<in> set '' -()'')"

definition prefixed_phone_input :: "string \<Rightarrow> bool" where
  "prefixed_phone_input p =
     ((startsWith p ''998'' \<and> list_all phone_char p) \<or>
      (startsWith p ''+998'' \<and> list_all phone_char (drop 1 p)))"

section \<open>Cache (src/models/Cache.js)\<close>

text \<open>
  The collection has a unique index on \<^verbatim>\<open>key\<close>, so it is a finite map from keys to
  documents. Timestamps are milliseconds since the epoch, as \<^verbatim>\<open>Date.now()\<close> gives them;
  the reading of the clock that an operation makes is its first argument. The payload is
  opaque (\<^verbatim>\<open>Mixed\<close>): a type variable.
\<close>

record 'v cache_doc =
  data :: 'v
  expiresAt :: int
  createdAt :: int

type_synonym 'v cache = "string \<rightharpoonup> 'v cache_doc"

text \<open>\<^verbatim>\<open>findOne({key, expiresAt: {$gt: new Date()}})\<close>, then \<^verbatim>\<open>cache.data\<close> or \<^verbatim>\<open>null\<close>.\<close>

definition Cache_get :: "int \<Rightarrow> 'v cache \<Rightarrow> string \<Rightarrow> 'v option" where
  "Cache_get now c key =
     (case c key of
        None \<Rightarrow> None
      | Some doc \<Rightarrow> if now < expiresAt doc then Some (data doc) else None)"

text \<open>
  \<^verbatim>\<open>new Date(x)\<close> for a number \<open>x\<close> of milliseconds: the time value is \<open>x\<close> with its fraction
  dropped, and the date is invalid (\<open>None\<close>) when \<open>x\<close> is beyond 8.64e15 in absolute value.
  The number is a JavaScript double, modelled as an exact rational.
\<close>

definition new_Date :: "rat \<Rightarrow> int option" where
  "new_Date x =
     (if \<bar>x\<bar> \<le> 8640000000000000 then Some (if 0 \<le> x then \<lfloor>x\<rfloor> else \<lceil>x\<rceil>) else None)"

datatype cache_error = CastError

text \<open>
  \<^verbatim>\<open>expiresAt = new Date(Date.now() + ttlSeconds * 1000)\<close>, then
  \<^verbatim>\<open>findOneAndUpdate({key}, {key, data, expiresAt, createdAt}, {upsert: true})\<close>, which
  refuses an invalid date: the call throws and the collection is as before. Otherwise the
  call returns \<^verbatim>\<open>data\<close>. The result is what the call gives and the collection afterwards.
\<close>

definition Cache_set ::
  "int \<Rightarrow> 'v cache \<Rightarrow> string \<Rightarrow> 'v \<Rightarrow> rat \<Rightarrow> (cache_error + 'v) \<times> 'v cache" where
  "Cache_set now c key d ttlSeconds =
     (case new_Date (of_int now + ttlSeconds * 1000) of
        None \<Rightarrow> (Inl CastError, c)
      | Some expires \<Rightarrow>
          (Inr d, c(key \<mapsto> \<lparr>data = d, expiresAt = expires, createdAt = now\<rparr>)))"

definition Cache_delete :: "'v cache \<Rightarrow> string \<Rightarrow> 'v cache" where
  "Cache_delete c key = c(key := None)"

text \<open>\<^verbatim>\<open>deleteMany({expiresAt: {$lt: new Date()}})\<close>.\<close>

definition Cache_clearExpired :: "int \<Rightarrow> 'v cache \<Rightarrow> 'v cache" where
  "Cache_clearExpired now c =
     (\<lambda>key. case c key of
        None \<Rightarrow> None
      | Some doc \<Rightarrow> if expiresAt doc < now then None else Some doc)"

section \<open>MoySkladService (src/services/moysklad.service.js)\<close>

text \<open>
  The external API is a parameter: what each of the three endpoints answers. A call either
  throws (\<^verbatim>\<open>fetch\<close> or \<^verbatim>\<open>response.json()\<close> rejects), answers with \<^verbatim>\<open>response.ok\<close> false, or
  answers with a body. Optional JSON members are options; an absent \<^verbatim>\<open>id\<close> or \<^verbatim>\<open>name\<close> is
  the empty string (both are falsy), \<open>cj_archived\<close> is \<^verbatim>\<open>counterparty.archived === true\<close>, and
  \<open>cj_accounts\<close> lists the \<^verbatim>\<open>balance\<close> members of \<^verbatim>\<open>counterparty.accounts\<close>. Amounts are
  JavaScript numbers; they are modelled as exact rationals, so the division by 100 is
  exact. Failures of the database are not modelled.
\<close>

datatype 'a response = Throws | NotOk | Ok 'a

record counterparty_json =
  cj_id :: string
  cj_name :: string
  cj_phone :: "string option"
  cj_archived :: bool
  cj_accounts :: "rat option list option"

record search_json =
  sj_rows :: "counterparty_json list option"

record report_row =
  rr_href :: "string option"
  rr_balance :: "rat option"

record report_json =
  rj_rows :: "report_row list option"

record api =
  search :: "string \<Rightarrow> search_json response"
  detail :: "string \<Rightarrow> counterparty_json response"
  report :: "report_json response"

datatype status = debtor | creditor | ok | unknown

text \<open>What \<^verbatim>\<open>findCounterpartyByPhone\<close> returns: \<^verbatim>\<open>{id, name, phone, balance, status}\<close>.\<close>

record basic_info =
  bi_id :: string
  bi_name :: string
  bi_phone :: string
  bi_balance :: rat
  bi_status :: status

text \<open>What \<^verbatim>\<open>getCounterpartyDetails\<close> returns: \<^verbatim>\<open>{id, name, phone, balance, status, isBlocked}\<close>.\<close>

record counterparty =
  cp_id :: string
  cp_name :: string
  cp_phone :: string
  cp_balance :: rat
  cp_status :: status
  cp_isBlocked :: bool

text \<open>\<^verbatim>\<open>x || d\<close> on an optional string (absent and empty are falsy) and on an optional number.\<close>

definition or_string :: "string option \<Rightarrow> string \<Rightarrow> string" where
  "or_string x d = (case x of None \<Rightarrow> d | Some s \<Rightarrow> if s = [] then d else s)"

definition or_zero :: "rat option \<Rightarrow> rat" where
  "or_zero x = (case x of None \<Rightarrow> 0 | Some n \<Rightarrow> n)"

text \<open>\<^verbatim>\<open>counterparty.accounts?.[0]?.balance\<close>.\<close>

definition first_account_balance :: "counterparty_json \<Rightarrow> rat option" where
  "first_account_balance cp =
     (case cj_accounts cp of
        None \<Rightarrow> None
      | Some [] \<Rightarrow> None
      | Some (b # _) \<Rightarrow> b)"

text \<open>\<^verbatim>\<open>String.prototype.includes\<close>: the argument occurs as a contiguous substring.\<close>

fun js_includes :: "string \<Rightarrow> string \<Rightarrow> bool" where
  "js_includes [] p = (p = [])"
| "js_includes (x # xs) p = (if startsWith (x # xs) p then True else js_includes xs p)"

text \<open>The characters that \<^verbatim>\<open>/[\s+]/g\<close> removes (ASCII white space and the plus sign).\<close>

definition space_or_plus :: "char \<Rightarrow> bool" where
  "space_or_plus c = (c \<in> set [CHR '' '', CHR 0x09, CHR 0x0A, CHR 0x0B, CHR 0x0C, CHR 0x0D, CHR ''+''])"

definition findCounterpartyByPhone :: "api \<Rightarrow> string \<Rightarrow> basic_info option" where
  "findCounterpartyByPhone a phone =
     (if phone = [] then None
      else
        let cleanPhone = filter (\<lambda>c. \<not> space_or_plus c) phone in
        case search a cleanPhone of
          Throws \<Rightarrow> None
        | NotOk \<Rightarrow> None
        | Ok d \<Rightarrow>
            (case sj_rows d of
               None \<Rightarrow> None
             | Some [] \<Rightarrow> None
             | Some (cp # _) \<Rightarrow>
                 Some \<lparr>bi_id = cj_id cp, bi_name = cj_name cp,
                       bi_phone = or_string (cj_phone cp) phone,
                       bi_balance = 0, bi_status = unknown\<rparr>))"


text \<open>
  \<^verbatim>\<open>reportData.rows?.find((row) => row.counterparty?.meta?.href?.includes(counterpartyId))\<close>.
\<close>

definition report_row_for :: "string \<Rightarrow> report_json \<Rightarrow> report_row option" where
  "report_row_for counterpartyId reportData =
     (case rj_rows reportData of
        None \<Rightarrow> None
      | Some rows \<Rightarrow>
          find (\<lambda>row. case rr_href row of None \<Rightarrow> False
                                         | Some href \<Rightarrow> js_includes href counterpartyId) rows)"

definition getCounterpartyDetails :: "api \<Rightarrow> string \<Rightarrow> counterparty option" where
  "getCounterpartyDetails a counterpartyId =
     (if counterpartyId = [] then None
      else
        case detail a counterpartyId of
          Throws \<Rightarrow> None
        | NotOk \<Rightarrow> None
        | Ok cp \<Rightarrow>
            let isBlocked = cj_archived cp in
            (case report a of
               Throws \<Rightarrow> None
             | NotOk \<Rightarrow>
                 let balance = or_zero (first_account_balance cp);
                     balanceKopeks = balance / 100
                 in Some \<lparr>cp_id = cj_id cp, cp_name = cj_name cp,
                          cp_phone = or_string (cj_phone cp) [],
                          cp_balance = balanceKopeks,
                          cp_status = (if balanceKopeks < 0 then debtor
                                       else if balanceKopeks > 0 then creditor else ok),
                          cp_isBlocked = isBlocked\<rparr>
             | Ok reportData \<Rightarrow>
                 let balance =
                       (case report_row_for counterpartyId reportData of
                          Some counterpartyReport \<Rightarrow> or_zero (rr_balance counterpartyReport) / 100
                        | None \<Rightarrow> or_zero (first_account_balance cp) / 100);
                     status = (if balance < 0 then debtor
                               else if balance > 0 then creditor else ok)
                 in Some \<lparr>cp_id = cj_id cp, cp_name = cj_name cp,
                          cp_phone = or_string (cj_phone cp) [],
                          cp_balance = balance, cp_status = status,
                          cp_isBlocked = isBlocked\<rparr>))"

text \<open>
  \<^verbatim>\<open>getCounterpartyByPhone(phone, useCache)\<close> over the cache of counterparty records.
  \<open>tget\<close> and \<open>tset\<close> are the readings of the clock made by \<^verbatim>\<open>Cache.get\<close> and \<^verbatim>\<open>Cache.set\<close>;
  the result is the returned value together with the cache afterwards. When \<^verbatim>\<open>Cache.set\<close>
  throws, the \<^verbatim>\<open>catch\<close> of the function returns \<^verbatim>\<open>null\<close>.
\<close>

definition getCounterpartyByPhone ::
  "api \<Rightarrow> rat \<Rightarrow> int \<Rightarrow> int \<Rightarrow> counterparty cache \<Rightarrow> string \<Rightarrow> bool
     \<Rightarrow> counterparty option \<times> counterparty cache" where
  "getCounterpartyByPhone a cacheTTL tget tset c phone useCache =
     (let cacheKey = ''counterparty:'' @ phone in
      case (if useCache then Cache_get tget c cacheKey else None) of
        Some cached \<Rightarrow> (Some cached, c)
      | None \<Rightarrow>
          (case findCounterpartyByPhone a phone of
             None \<Rightarrow> (None, c)
           | Some basicInfo \<Rightarrow>
               if bi_id basicInfo = [] then (None, c)
               else
                 (case getCounterpartyDetails a (bi_id basicInfo) of
                    None \<Rightarrow> (None, c)
                  | Some fullDetails \<Rightarrow>
                      if useCache
                      then (case Cache_set tset c cacheKey fullDetails cacheTTL of
                              (Inr _, c') \<Rightarrow> (Some fullDetails, c')
                            | (Inl _, c') \<Rightarrow> (None, c'))
                      else (Some fullDetails, c))))"

section \<open>RateLimiter (src/utils/rateLimiter.js)\<close>

text \<open>
  A queue entry is \<^verbatim>\<open>{task, resolve, reject}\<close>. The pair \<^verbatim>\<open>resolve\<close>/\<^verbatim>\<open>reject\<close> belongs to the
  promise handed to one submitter, named by \<open>caller\<close>. Of the task the loop observes how long
  its promise takes to settle (\<open>run_ms\<close>) and whether it returns a value or throws
  (\<open>returns\<close>). A timer never fires early; by how much the two timers of an iteration
  fire late is part of the input (\<open>wait_late\<close>, \<open>gap_late\<close>). Time is in milliseconds.
\<close>

record ('c, 'e, 'a) entry =
  caller :: 'c
  run_ms :: nat
  returns :: "'e + 'a"
  wait_late :: nat
  gap_late :: nat

datatype ('e, 'a) settled = Resolved 'a | Rejected 'e

text \<open>One run of \<^verbatim>\<open>task()\<close>: who submitted it, when it was called, when and how it settled.\<close>

record ('c, 'e, 'a) dispatch =
  d_caller :: 'c
  dispatched_at :: int
  settled_at :: int
  outcome :: "('e, 'a) settled"

record ('c, 'e, 'a) limiter =
  maxPerSecond :: int
  queue :: "('c, 'e, 'a) entry list"
  processing :: bool
  sentInCurrentSecond :: int
  currentSecondStart :: int

text \<open>The constructor, run at time \<open>now\<close>.\<close>

definition RateLimiter :: "int \<Rightarrow> int \<Rightarrow> ('c, 'e, 'a) limiter" where
  "RateLimiter cap now =
     \<lparr>maxPerSecond = cap, queue = [], processing = False,
      sentInCurrentSecond = 0, currentSecondStart = now\<rparr>"

text \<open>
  \<^verbatim>\<open>sleep(ms)\<close> is \<^verbatim>\<open>setTimeout(resolve, ms)\<close>: a delay below 1 is taken as 1, and the timer
  fires \<open>late\<close> milliseconds after it is due. The value is the time that passes.
\<close>

definition sleep :: "int \<Rightarrow> nat \<Rightarrow> int" where
  "sleep ms late = (if ms < 1 then 1 else ms) + int late"

text \<open>
  One pass through the body of the \<^verbatim>\<open>while\<close> loop of \<^verbatim>\<open>processQueue\<close>, begun at time \<open>now\<close>
  with \<open>e\<close> at the head of the queue: the dispatch made, the limiter afterwards and the time
  at which the pass ends, after the pause of 40 ms. \<^verbatim>\<open>resolve\<close> is called with the value the
  task returned, \<^verbatim>\<open>reject\<close> with the error it threw.
\<close>

definition iteration ::
  "('c, 'e, 'a) limiter \<Rightarrow> int \<Rightarrow> ('c, 'e, 'a) entry
     \<Rightarrow> ('c, 'e, 'a) dispatch \<times> ('c, 'e, 'a) limiter \<times> int" where
  "iteration L now e =
     (let elapsed = now - currentSecondStart L;
          L1 = (if elapsed \<ge> 1000
                then L\<lparr>sentInCurrentSecond := 0, currentSecondStart := now\<rparr> else L);
          limited = (sentInCurrentSecond L1 \<ge> maxPerSecond L1);
          now2 = (if limited then now + sleep (1000 - elapsed) (wait_late e) else now);
          L2 = (if limited
                then L1\<lparr>sentInCurrentSecond := 0, currentSecondStart := now2\<rparr> else L1);
          L3 = L2\<lparr>queue := tl (queue L2)\<rparr>;
          finished = now2 + int (run_ms e);
          L4 = (case returns e of
                  Inr _ \<Rightarrow> L3\<lparr>sentInCurrentSecond := sentInCurrentSecond L3 + 1\<rparr>
                | Inl _ \<Rightarrow> L3);
          d = \<lparr>d_caller = caller e, dispatched_at = now2, settled_at = finished,
               outcome = (case returns e of
                            Inr result \<Rightarrow> Resolved result
                          | Inl err \<Rightarrow> Rejected err)\<rparr>
      in (d, L4, finished + sleep 40 (gap_late e)))"

text \<open>\<^verbatim>\<open>this.queue.push({task, resolve, reject})\<close>.\<close>

definition push :: "('c, 'e, 'a) limiter \<Rightarrow> ('c, 'e, 'a) entry \<Rightarrow> ('c, 'e, 'a) limiter" where
  "push L e = L\<lparr>queue := queue L @ [e]\<rparr>"

text \<open>
  A call of \<^verbatim>\<open>schedule\<close>: the time of the call and the entry it pushes. The calls still to
  come are listed in the order in which they are made, which is the order of their times.
\<close>

type_synonym ('c, 'e, 'a) submission = "int \<times> ('c, 'e, 'a) entry"

text \<open>
  While the loop is suspended in an \<^verbatim>\<open>await\<close>, \<^verbatim>\<open>processing\<close> is set, so a call of
  \<^verbatim>\<open>schedule\<close> only pushes its entry. \<open>arrived t L subs\<close> is the limiter after the calls made
  up to time \<open>t\<close>, each pushing its entry, and \<open>still_to_come t subs\<close> are the later ones.
  Entries are pushed at the tail and taken from the head, so the calls made during one
  pass of the loop can be pushed at its end.
\<close>

definition arrived ::
  "int \<Rightarrow> ('c, 'e, 'a) limiter \<Rightarrow> ('c, 'e, 'a) submission list \<Rightarrow> ('c, 'e, 'a) limiter" where
  "arrived t L subs = foldl push L (map snd (takeWhile (\<lambda>s. fst s \<le> t) subs))"

definition still_to_come ::
  "int \<Rightarrow> ('c, 'e, 'a) submission list \<Rightarrow> ('c, 'e, 'a) submission list" where
  "still_to_come t subs = dropWhile (\<lambda>s. fst s \<le> t) subs"

text \<open>
  The limiter from the test of the \<^verbatim>\<open>while\<close> loop at time \<open>now\<close>, with the calls of
  \<^verbatim>\<open>schedule\<close> still to come. With an entry queued, one pass of the loop is made. With the
  queue empty the loop ends and \<^verbatim>\<open>processing\<close> is cleared; the limiter is idle until the
  next call of \<^verbatim>\<open>schedule\<close>, which pushes its entry and, \<^verbatim>\<open>processing\<close> being clear, calls
  \<^verbatim>\<open>processQueue\<close>, which sets it and enters the loop at the time of the call. An idle
  limiter is the case of the empty queue. The result is the dispatches in the order they
  were made, the limiter at the end and the time at which the last loop ended.
\<close>

function processQueue ::
  "('c, 'e, 'a) limiter \<Rightarrow> int \<Rightarrow> ('c, 'e, 'a) submission list
     \<Rightarrow> ('c, 'e, 'a) dispatch list \<times> ('c, 'e, 'a) limiter \<times> int" where
  "processQueue L now subs =
     (case queue L of
        e # _ \<Rightarrow>
          (let it = iteration L now e;
               woke = snd (snd it);
               r = processQueue (arrived woke (fst (snd it)) subs) woke (still_to_come woke subs)
           in (fst it # fst r, snd r))
      | [] \<Rightarrow>
          (case subs of
             [] \<Rightarrow> ([], L\<lparr>processing := False\<rparr>, now)
           | s # rest \<Rightarrow>
               processQueue ((push (L\<lparr>processing := False\<rparr>) (snd s))\<lparr>processing := True\<rparr>)
                 (max now (fst s)) rest))"
  by pat_completeness auto

termination
  apply (relation "measure (\<lambda>(L, now, subs). 2 * length subs + length (queue L))")
    apply simp
   apply (simp add: push_def)
  subgoal premises prems for L now subs e q it woke
  proof -
    have "queue (fst (snd (iteration L now e))) = tl (queue L)"
      by (simp add: iteration_def Let_def split: sum.splits)
    with prems have a: "queue (fst (snd it)) = q" by simp
    have pushed: "length (queue (foldl push M es)) = length (queue M) + length es"
      for M es
      by (induction es arbitrary: M) (simp_all add: push_def)
    have b: "length (takeWhile (\<lambda>s. fst s \<le> woke) subs)
               + length (dropWhile (\<lambda>s. fst s \<le> woke) subs) = length subs"
      by (simp only: length_append [symmetric] takeWhile_dropWhile_id)
    from a b prems(1) show ?thesis
      by (simp add: arrived_def still_to_come_def pushed)
  qed
  done

declare processQueue.simps [simp del]





definition task :: "nat \<Rightarrow> string + nat \<Rightarrow> (nat, string, nat) entry" where
  "task i r = \<lparr>caller = i, run_ms = 5, returns = r, wait_late = 0, gap_late = 0\<rparr>"


section \<open>DebtReminderSender (src/cron/sender.cron.js)\<close>

record user =
  telegram_id :: string
  u_phone :: string
  is_active :: bool
  language :: string
  last_sent_at :: "int option"

datatype reason = inactive | not_found | no_debt | send_failed | error

text \<open>\<^verbatim>\<open>{success: true, debtAmount}\<close> or \<^verbatim>\<open>{success: false, reason}\<close>.\<close>

datatype result = Success rat | Failure reason

text \<open>
  The collaborators of the job, over a state \<open>'w\<close> of everything outside it (database,
  cache, external API, Telegram). \<open>lookup\<close> is \<^verbatim>\<open>moySkladService.getCounterpartyByPhone\<close>
  (it catches its own errors); \<open>remind\<close> is the \<^verbatim>\<open>rateLimiter.schedule\<close> of
  \<^verbatim>\<open>sendDebtReminder\<close>, \<open>True\<close> when the promise resolves and \<open>False\<close> when it rejects;
  \<open>save\<close> is \<^verbatim>\<open>user.save()\<close> and \<open>updateStats\<close> is \<^verbatim>\<open>Statistics.updateStats\<close>, \<open>False\<close> when
  they throw; \<open>globalSendTime\<close> and \<open>activeUsers\<close> are \<open>None\<close> when the query throws.
\<close>

record 'w services =
  clock :: "'w \<Rightarrow> int"
  lookup :: "string \<Rightarrow> 'w \<Rightarrow> counterparty option \<times> 'w"
  remind :: "user \<Rightarrow> rat \<Rightarrow> counterparty \<Rightarrow> 'w \<Rightarrow> bool \<times> 'w"
  save :: "user \<Rightarrow> 'w \<Rightarrow> bool \<times> 'w"
  updateStats :: "nat \<Rightarrow> 'w \<Rightarrow> bool \<times> 'w"
  currentTime :: "'w \<Rightarrow> string"
  globalSendTime :: "'w \<Rightarrow> string option"
  activeUsers :: "'w \<Rightarrow> user list option"

definition processUser :: "'w services \<Rightarrow> user \<Rightarrow> 'w \<Rightarrow> result \<times> 'w" where
  "processUser sv u w =
     (if \<not> is_active u then (Failure inactive, w)
      else
        case lookup sv (u_phone u) w of
          (None, w1) \<Rightarrow> (Failure not_found, w1)
        | (Some cp, w1) \<Rightarrow>
            if cp_balance cp \<ge> 0 then (Failure no_debt, w1)
            else
              let debtAmount = \<bar>cp_balance cp\<bar> in
              (case remind sv u debtAmount cp w1 of
                 (True, w2) \<Rightarrow>
                   (case save sv (u\<lparr>last_sent_at := Some (clock sv w2)\<rparr>) w2 of
                      (True, w3) \<Rightarrow> (Success debtAmount, w3)
                    | (False, w3) \<Rightarrow> (Failure error, w3))
               | (False, w2) \<Rightarrow> (Failure send_failed, w2)))"

text \<open>The result of \<^verbatim>\<open>processUser\<close> has \<^verbatim>\<open>success: true\<close>.\<close>

definition succeeded :: "result \<Rightarrow> bool" where
  "succeeded r = (case r of Success _ \<Rightarrow> True | Failure _ \<Rightarrow> False)"

record tally =
  sent :: nat
  skipped :: nat
  failed :: nat

text \<open>The body of the \<^verbatim>\<open>for (const user of users)\<close> loop after \<^verbatim>\<open>processUser\<close> returned.\<close>

definition count_result :: "tally \<Rightarrow> result \<Rightarrow> tally" where
  "count_result k r =
     (case r of
        Success _ \<Rightarrow> k\<lparr>sent := sent k + 1\<rparr>
      | Failure rs \<Rightarrow>
          if rs = no_debt \<or> rs = inactive then k\<lparr>skipped := skipped k + 1\<rparr>
          else k\<lparr>failed := failed k + 1\<rparr>)"

fun sweep :: "'w services \<Rightarrow> user list \<Rightarrow> tally \<Rightarrow> 'w \<Rightarrow> tally \<times> 'w" where
  "sweep sv [] k w = (k, w)"
| "sweep sv (u # us) k w =
     (case processUser sv u w of (r, w') \<Rightarrow> sweep sv us (count_result k r) w')"

text \<open>The results that \<^verbatim>\<open>processUser\<close> returns during the loop, in order.\<close>

fun sweep_results :: "'w services \<Rightarrow> user list \<Rightarrow> 'w \<Rightarrow> result list" where
  "sweep_results sv [] w = []"
| "sweep_results sv (u # us) w =
     (case processUser sv u w of (r, w') \<Rightarrow> r # sweep_results sv us w')"

datatype tick_outcome = Skipped | NotDue | NoUsers | Swept tally | CronError

text \<open>
  \<^verbatim>\<open>execute()\<close> run from its call to its return: the outcome of the tick, the flag
  \<^verbatim>\<open>isRunning\<close> afterwards, and the state of the collaborators afterwards.
\<close>

definition execute :: "'w services \<Rightarrow> bool \<Rightarrow> 'w \<Rightarrow> tick_outcome \<times> bool \<times> 'w" where
  "execute sv isRunning w =
     (if isRunning then (Skipped, isRunning, w)
      else
        case globalSendTime sv w of
          None \<Rightarrow> (CronError, False, w)
        | Some target \<Rightarrow>
            if currentTime sv w \<noteq> target then (NotDue, False, w)
            else
              (case activeUsers sv w of
                 None \<Rightarrow> (CronError, False, w)
               | Some users \<Rightarrow>
                   if users = [] then (NoUsers, False, w)
                   else
                     (case sweep sv users \<lparr>sent = 0, skipped = 0, failed = 0\<rparr> w of
                        (k, w1) \<Rightarrow>
                          (case updateStats sv (sent k) w1 of
                             (True, w2) \<Rightarrow> (Swept k, False, w2)
                           | (False, w2) \<Rightarrow> (CronError, False, w2)))))"

text \<open>
  Between its \<^verbatim>\<open>await\<close>s an invocation of \<^verbatim>\<open>execute\<close> runs without interruption, so the
  scheduler sees two atomic steps: a tick calls \<^verbatim>\<open>execute\<close>, which tests the flag and either
  returns or sets it (lines 114 to 119); and an invocation that has set the flag reaches
  one of its exits, each of which clears the flag (lines 137, 151 and 190). \<open>in_progress\<close>
  counts the invocations between the two; \<open>skipped_ticks\<close> counts the ticks turned away.
\<close>

record sender =
  isRunning :: bool
  in_progress :: nat
  skipped_ticks :: nat

datatype sender_event = TickFires | SweepEnds

fun sender_step :: "sender \<Rightarrow> sender_event \<Rightarrow> sender" where
  "sender_step s TickFires =
     (if isRunning s then s\<lparr>skipped_ticks := skipped_ticks s + 1\<rparr>
      else s\<lparr>isRunning := True, in_progress := in_progress s + 1\<rparr>)"
| "sender_step s SweepEnds =
     (if in_progress s = 0 then s
      else s\<lparr>isRunning := False, in_progress := in_progress s - 1\<rparr>)"

definition DebtReminderSender :: sender where
  "DebtReminderSender = \<lparr>isRunning = False, in_progress = 0, skipped_ticks = 0\<rparr>"

section \<open>Sample data\<close>

text \<open>
  A counterparty with a debt of 50 000 (5 000 000 minor units in the report, 200 000 in
  its first account), and an API that knows this counterparty only.
\<close>

definition sample_counterparty :: counterparty_json where
  "sample_counterparty =
     \<lparr>cj_id = ''cp-1'', cj_name = ''Ali'', cj_phone = Some ''+998901234567'',
      cj_archived = False, cj_accounts = Some [Some (- 200000)]\<rparr>"

definition sample_api :: api where
  "sample_api =
     \<lparr>search = (\<lambda>q. if q = ''998901234567''
                     then Ok \<lparr>sj_rows = Some [sample_counterparty]\<rparr>
                     else Ok \<lparr>sj_rows = Some []\<rparr>),
      detail = (\<lambda>i. if i = ''cp-1'' then Ok sample_counterparty else NotOk),
      report = Ok \<lparr>rj_rows = Some [\<lparr>rr_href = Some ''https://api/entity/counterparty/cp-1'',
                                   rr_balance = Some (- 5000000)\<rparr>]\<rparr>\<rparr>"

definition stale_record :: counterparty where
  "stale_record =
     \<lparr>cp_id = ''cp-1'', cp_name = ''Ali'', cp_phone = ''+998901234567'',
      cp_balance = 0, cp_status = ok, cp_isBlocked = False\<rparr>"

definition stale_cache :: "counterparty cache" where
  "stale_cache =
     [''counterparty:+998901234567'' \<mapsto>
        \<lparr>data = stale_record, expiresAt = 300000, createdAt = 0\<rparr>]"

text \<open>
  Collaborators over a cache as the only state: the lookup is \<open>getCounterpartyByPhone\<close>
  against the sample API, sending and saving succeed.
\<close>

definition sample_services :: "counterparty cache services" where
  "sample_services =
     \<lparr>clock = (\<lambda>w. 1000),
      lookup = (\<lambda>phone w. getCounterpartyByPhone sample_api 300 1000 1000 w phone True),
      remind = (\<lambda>u debt cp w. (True, w)),
      save = (\<lambda>u w. (True, w)),
      updateStats = (\<lambda>n w. (True, w)),
      currentTime = (\<lambda>w. ''09:00''),
      globalSendTime = (\<lambda>w. Some ''09:00''),
      activeUsers = (\<lambda>w. Some [])\<rparr>"

definition stranger :: user where
  "stranger =
     \<lparr>telegram_id = ''42'', u_phone = ''+998000000000'', is_active = True,
      language = ''uz'', last_sent_at = None\<rparr>"

definition debtor_user :: user where
  "debtor_user =
     \<lparr>telegram_id = ''7'', u_phone = ''+998901234567'', is_active = True,
      language = ''uz'', last_sent_at = None\<rparr>"

section \<open>Lemmas on phone normalisation\<close>

lemma digits_of_digits: "list_all is_digit (digits_of p)"
  by (simp add: digits_of_def list_all_iff)

lemma digits_of_idem: "list_all is_digit s \<Longrightarrow> digits_of s = s"
  by (simp add: digits_of_def list_all_iff)

lemma plus_not_digit: "\<not> is_digit CHR ''+''"
  by (simp add: is_digit_def)

lemma digits_of_plus: "digits_of (CHR ''+'' # s) = digits_of s"
  by (simp add: digits_of_def plus_not_digit)

lemma digits_of_append: "digits_of (a @ b) = digits_of a @ digits_of b"
  by (simp add: digits_of_def)

lemma digits_of_998: "digits_of ''998'' = ''998''"
  by (simp add: digits_of_def is_digit_def)

lemma digits_never_start_plus: "\<not> startsWith (digits_of p) ''+''"
proof
  assume h: "startsWith (digits_of p) ''+''"
  then obtain r where r: "digits_of p = CHR ''+'' # r"
    by (cases "digits_of p") (auto simp: startsWith_def)
  have "list_all is_digit (digits_of p)" by (rule digits_of_digits)
  with r show False by (simp add: plus_not_digit)
qed

lemma normalizePhone_cases:
  "normalizePhone p =
     (if startsWith (digits_of p) ''998'' then CHR ''+'' # digits_of p
      else if length (digits_of p) = 9 then ''+998'' @ digits_of p
      else CHR ''+'' # digits_of p)"
  by (simp add: normalizePhone_def Let_def digits_never_start_plus)

lemma digits_of_normalizePhone:
  "digits_of (normalizePhone p) =
     (if startsWith (digits_of p) ''998'' \<or> length (digits_of p) \<noteq> 9 then digits_of p
      else ''998'' @ digits_of p)"
proof -
  have d: "digits_of (digits_of p) = digits_of p"
    by (rule digits_of_idem) (rule digits_of_digits)
  have e: "digits_of (CHR ''+'' # digits_of p) = digits_of p"
    by (simp only: digits_of_plus d)
  have "digits_of (''+998'' @ digits_of p) = digits_of (''998'' @ digits_of p)"
    using digits_of_plus [of "''998'' @ digits_of p"] by simp
  also have "\<dots> = ''998'' @ digits_of p"
    by (simp only: digits_of_append digits_of_998 d)
  finally have f: "digits_of (''+998'' @ digits_of p) = ''998'' @ digits_of p" .
  show ?thesis
  proof (cases "startsWith (digits_of p) ''998''")
    case True
    then show ?thesis by (simp only: normalizePhone_cases e if_True simp_thms)
  next
    case False
    note nf = this
    show ?thesis
    proof (cases "length (digits_of p) = 9")
      case True
      with nf f show ?thesis by (simp only: normalizePhone_cases if_True if_False simp_thms)
    next
      case False
      with nf e show ?thesis by (simp only: normalizePhone_cases if_True if_False simp_thms)
    qed
  qed
qed

lemma valid_plus_digits:
  "startsWith ds ''998'' \<Longrightarrow> list_all is_digit ds \<Longrightarrow>
   valid_uz_phone (CHR ''+'' # ds) = (length ds = 12)"
proof -
  assume s: "startsWith ds ''998''" and d: "list_all is_digit ds"
  from s obtain r where r: "ds = ''998'' @ r"
    by (metis append_take_drop_id length_Cons list.size(3) startsWith_def)
  from d r have "list_all is_digit r" by simp
  with r show ?thesis by (auto simp: valid_uz_phone_def)
qed

section \<open>Lemmas on the cache and the sample data\<close>


lemma Cache_get_clearExpired:
  "s \<le> t \<Longrightarrow> Cache_get t (Cache_clearExpired s c) k = Cache_get t c k"
  by (auto simp: Cache_get_def Cache_clearExpired_def split: option.splits)

lemma sample_find:
  "findCounterpartyByPhone sample_api ''+998901234567'' =
     Some \<lparr>bi_id = ''cp-1'', bi_name = ''Ali'', bi_phone = ''+998901234567'',
           bi_balance = 0, bi_status = unknown\<rparr>"
  by (simp add: findCounterpartyByPhone_def sample_api_def sample_counterparty_def
      space_or_plus_def or_string_def Let_def)

lemma sample_details:
  "getCounterpartyDetails sample_api ''cp-1'' =
     Some \<lparr>cp_id = ''cp-1'', cp_name = ''Ali'', cp_phone = ''+998901234567'',
           cp_balance = - 50000, cp_status = debtor, cp_isBlocked = False\<rparr>"
  by (simp add: getCounterpartyDetails_def sample_api_def sample_counterparty_def
      report_row_for_def startsWith_def or_string_def or_zero_def Let_def)

section \<open>Lemmas on the rate limiter\<close>

lemma foldl_push: "foldl push L es = L\<lparr>queue := queue L @ es\<rparr>"
  by (induction es arbitrary: L) (simp_all add: push_def)

lemma queue_arrived:
  "queue (arrived t L subs) = queue L @ map snd (takeWhile (\<lambda>s. fst s \<le> t) subs)"
  by (simp add: arrived_def foldl_push)

lemma queue_iteration: "queue (fst (snd (iteration L now e))) = tl (queue L)"
  by (simp add: iteration_def Let_def split: sum.splits)




lemma processQueue_idle_done:
  "queue L = [] \<Longrightarrow> processQueue L now [] = ([], L\<lparr>processing := False\<rparr>, now)"
  by (subst processQueue.simps) simp

lemma processQueue_idle_next:
  "queue L = [] \<Longrightarrow>
   processQueue L now (s # rest) =
     processQueue ((push (L\<lparr>processing := False\<rparr>) (snd s))\<lparr>processing := True\<rparr>)
       (max now (fst s)) rest"
  by (subst processQueue.simps) simp

lemma processQueue_busy:
  "queue L = e # q \<Longrightarrow>
   processQueue L now subs =
     (fst (iteration L now e) #
        fst (processQueue (arrived (snd (snd (iteration L now e))) (fst (snd (iteration L now e))) subs)
               (snd (snd (iteration L now e))) (still_to_come (snd (snd (iteration L now e))) subs)),
      snd (processQueue (arrived (snd (snd (iteration L now e))) (fst (snd (iteration L now e))) subs)
               (snd (snd (iteration L now e))) (still_to_come (snd (snd (iteration L now e))) subs)))"
  by (subst processQueue.simps) (simp add: Let_def)

lemma iteration_delivery:
  "d_caller (fst (iteration L now e)) = caller e"
  "outcome (fst (iteration L now e)) =
     (case returns e of Inr result \<Rightarrow> Resolved result | Inl err \<Rightarrow> Rejected err)"
  "dispatched_at (fst (iteration L now e)) \<le> settled_at (fst (iteration L now e))"
  by (simp_all add: iteration_def Let_def)


lemma queue_after_arrivals:
  "queue (arrived t L subs) @ map snd (still_to_come t subs) = queue L @ map snd subs"
proof -
  have "map snd (takeWhile (\<lambda>s. fst s \<le> t) subs) @ map snd (dropWhile (\<lambda>s. fst s \<le> t) subs)
          = map snd subs"
    by (simp only: map_append [symmetric] takeWhile_dropWhile_id)
  then show ?thesis
    by (simp add: queue_arrived still_to_come_def)
qed

lemma processQueue_delivery:
  "map (\<lambda>d. (d_caller d, outcome d)) (fst (processQueue L now subs)) =
   map (\<lambda>e. (caller e, case returns e of Inr result \<Rightarrow> Resolved result | Inl err \<Rightarrow> Rejected err))
     (queue L @ map snd subs)"
proof (induction L now subs rule: processQueue.induct)
  case (1 L now subs)
  show ?case
  proof (cases "queue L")
    case Nil
    note idle = this
    show ?thesis
    proof (cases subs)
      case Nil
      with idle show ?thesis by (simp add: processQueue_idle_done)
    next
      case (Cons s rest)
      with idle "1.IH"(1) [OF idle Cons] show ?thesis
        by (simp add: processQueue_idle_next push_def)
    qed
  next
    case (Cons e q)
    let ?it = "iteration L now e"
    let ?woke = "snd (snd ?it)"
    have ih: "map (\<lambda>d. (d_caller d, outcome d))
                (fst (processQueue (arrived ?woke (fst (snd ?it)) subs) ?woke (still_to_come ?woke subs))) =
              map (\<lambda>e. (caller e, case returns e of Inr result \<Rightarrow> Resolved result | Inl err \<Rightarrow> Rejected err))
                (queue (arrived ?woke (fst (snd ?it)) subs) @ map snd (still_to_come ?woke subs))"
      by (rule "1.IH"(2) [OF Cons refl refl])
    have q: "queue (arrived ?woke (fst (snd ?it)) subs) @ map snd (still_to_come ?woke subs)
               = q @ map snd subs"
      by (simp only: queue_after_arrivals queue_iteration Cons list.sel)
    show ?thesis
      by (simp only: processQueue_busy [OF Cons] fst_conv list.map ih q iteration_delivery Cons
          append_Cons)
  qed
qed













section \<open>Lemmas on the reminder sweep\<close>

lemma stranger_find: "findCounterpartyByPhone sample_api ''+998000000000'' = None"
  by (simp add: findCounterpartyByPhone_def sample_api_def space_or_plus_def Let_def)

lemma stranger_lookup:
  "lookup sample_services ''+998000000000'' stale_cache = (None, stale_cache)"
  by (simp add: sample_services_def getCounterpartyByPhone_def Cache_get_def stale_cache_def
      stranger_find)

lemma debtor_lookup:
  "lookup sample_services ''+998901234567'' Map.empty =
     (Some \<lparr>cp_id = ''cp-1'', cp_name = ''Ali'', cp_phone = ''+998901234567'',
            cp_balance = - 50000, cp_status = debtor, cp_isBlocked = False\<rparr>,
      snd (Cache_set 1000 Map.empty ''counterparty:+998901234567''
             \<lparr>cp_id = ''cp-1'', cp_name = ''Ali'', cp_phone = ''+998901234567'',
              cp_balance = - 50000, cp_status = debtor, cp_isBlocked = False\<rparr> 300))"
  by (simp add: sample_services_def getCounterpartyByPhone_def Cache_get_def Cache_set_def
      new_Date_def sample_find sample_details)

lemma sample_remind: "remind sample_services u d cp w = (True, w)"
  by (simp add: sample_services_def)

lemma sample_schedule:
  "globalSendTime sample_services w = Some ''09:00''"
  "currentTime sample_services w = ''09:00''"
  "updateStats sample_services n w = (True, w)"
  by (simp_all add: sample_services_def)

lemma sweep_foldl: "fst (sweep sv us k w) = foldl count_result k (sweep_results sv us w)"
  by (induction us arbitrary: k w) (simp_all split: prod.splits)

lemma length_sweep_results: "length (sweep_results sv us w) = length us"
  by (induction us arbitrary: w) (simp_all split: prod.splits)

lemma foldl_count_result:
  "sent (foldl count_result k rs) = sent k + length (filter succeeded rs) \<and>
   skipped (foldl count_result k rs) =
     skipped k + length (filter (\<lambda>r. r \<in> {Failure inactive, Failure no_debt}) rs) \<and>
   failed (foldl count_result k rs) =
     failed k + length (filter (\<lambda>r. r \<in> {Failure not_found, Failure send_failed, Failure error}) rs)"
proof (induction rs arbitrary: k)
  case Nil
  show ?case by simp
next
  case (Cons r rs)
  show ?case
  proof (cases r)
    case (Success d)
    then show ?thesis
      using Cons.IH [of "count_result k r"] by (simp add: count_result_def succeeded_def)
  next
    case (Failure rs')
    then show ?thesis
      using Cons.IH [of "count_result k r"]
      by (cases rs') (simp_all add: count_result_def succeeded_def)
  qed
qed

lemma foldl_count_total:
  "sent (foldl count_result k rs) + skipped (foldl count_result k rs) + failed (foldl count_result k rs)
     = sent k + skipped k + failed k + length rs"
proof (induction rs arbitrary: k)
  case Nil
  show ?case by simp
next
  case (Cons r rs)
  have "sent (count_result k r) + skipped (count_result k r) + failed (count_result k r)
          = sent k + skipped k + failed k + 1"
    by (simp add: count_result_def split: result.splits)
  with Cons.IH [of "count_result k r"] show ?case by simp
qed

lemma sender_invariant:
  "in_progress (foldl sender_step DebtReminderSender evs) =
     (if isRunning (foldl sender_step DebtReminderSender evs) then 1 else 0)"
proof (induction evs rule: rev_induct)
  case Nil
  show ?case by (simp add: DebtReminderSender_def)
next
  case (snoc e evs)
  then show ?case by (cases e) (simp_all)
qed

section \<open>Properties of User.normalizePhone\<close>

text \<open>
  C4, as stated, at a concrete input: \<^verbatim>\<open>"+998 12"\<close> consists of the prefix, a space and digits,
  and normalizes to \<^verbatim>\<open>"+99812"\<close>, which the pattern \<^verbatim>\<open>^\+998\d{9}$\<close> rejects. The function
  strips and prefixes; it does not check the number of national digits.
\<close>

theorem normalizePhone_short_counterexample:
  "prefixed_phone_input ''+998 12'' \<and> normalizePhone ''+998 12'' = ''+99812''
   \<and> \<not> valid_uz_phone (normalizePhone ''+998 12'')"
  by (simp add: prefixed_phone_input_def startsWith_def phone_char_def is_digit_def
      normalizePhone_def digits_of_def valid_uz_phone_def)

text \<open>
  C4, amended: when the digits of the input start with 998, the result is \<^verbatim>\<open>+\<close> followed by
  the digits of the input, and it matches \<^verbatim>\<open>^\+998\d{9}$\<close> exactly when nine digits follow
  the 998; when the digits of the input do not start with 998 and are exactly nine, the
  result is \<^verbatim>\<open>+998\<close> followed by them, and it matches the pattern.
\<close>

theorem normalizePhone_canonical:
  "(startsWith (digits_of p) ''998'' \<longrightarrow>
      normalizePhone p = ''+'' @ digits_of p \<and>
      (valid_uz_phone (normalizePhone p) \<longleftrightarrow> length (digits_of p) = 12)) \<and>
   (\<not> startsWith (digits_of p) ''998'' \<and> length (digits_of p) = 9 \<longrightarrow>
      normalizePhone p = ''+998'' @ digits_of p \<and> valid_uz_phone (normalizePhone p))"
proof (intro conjI impI)
  assume s: "startsWith (digits_of p) ''998''"
  then show "normalizePhone p = ''+'' @ digits_of p"
    by (simp add: normalizePhone_cases)
  from s show "valid_uz_phone (normalizePhone p) \<longleftrightarrow> length (digits_of p) = 12"
    using valid_plus_digits [OF s digits_of_digits] by (simp add: normalizePhone_cases)
next
  assume h: "\<not> startsWith (digits_of p) ''998'' \<and> length (digits_of p) = 9"
  then show "normalizePhone p = ''+998'' @ digits_of p"
    by (simp add: normalizePhone_cases)
  from h show "valid_uz_phone (normalizePhone p)"
    using digits_of_digits [of p] by (simp add: normalizePhone_cases valid_uz_phone_def)
qed

theorem normalizePhone_canonical_witness:
  "startsWith (digits_of ''+998 (97) 912-61-61'') ''998''
   \<and> normalizePhone ''+998 (97) 912-61-61'' = ''+998979126161''
   \<and> valid_uz_phone (normalizePhone ''+998 (97) 912-61-61'')
   \<and> \<not> startsWith (digits_of ''97 912-61-61'') ''998''
   \<and> length (digits_of ''97 912-61-61'') = 9
   \<and> normalizePhone ''97 912-61-61'' = ''+998979126161''
   \<and> valid_uz_phone (normalizePhone ''97 912-61-61'')"
  using normalizePhone_canonical [of "''+998 (97) 912-61-61''"]
    normalizePhone_canonical [of "''97 912-61-61''"]
  by (simp add: digits_of_def is_digit_def startsWith_def valid_uz_phone_def)

text \<open>
  C10: normalizePhone is idempotent: normalizing an already normalized string returns it
  unchanged, for every input string.
\<close>

theorem normalizePhone_idempotent:
  "normalizePhone (normalizePhone p) = normalizePhone p"
proof (cases "startsWith (digits_of p) ''998'' \<or> length (digits_of p) \<noteq> 9")
  case True
  then have d: "digits_of (normalizePhone p) = digits_of p"
    by (simp only: digits_of_normalizePhone if_True)
  have "normalizePhone (normalizePhone p) =
     (if startsWith (digits_of p) ''998'' then CHR ''+'' # digits_of p
      else if length (digits_of p) = 9 then ''+998'' @ digits_of p
      else CHR ''+'' # digits_of p)"
    using normalizePhone_cases [of "normalizePhone p"] unfolding d .
  also have "\<dots> = normalizePhone p"
    by (rule normalizePhone_cases [symmetric])
  finally show ?thesis .
next
  case False
  then have d: "digits_of (normalizePhone p) = ''998'' @ digits_of p"
    by (simp only: digits_of_normalizePhone if_False)
  have s: "startsWith (''998'' @ digits_of p) ''998''"
    by (simp add: startsWith_def)
  have "normalizePhone (normalizePhone p) = CHR ''+'' # ''998'' @ digits_of p"
    using normalizePhone_cases [of "normalizePhone p"] s unfolding d by simp
  moreover from False have "normalizePhone p = ''+998'' @ digits_of p"
    by (simp add: normalizePhone_cases)
  ultimately show ?thesis by simp
qed

theorem normalizePhone_idempotent_witness:
  "normalizePhone (normalizePhone ''97 912-61-61'') = ''+998979126161''"
  using normalizePhone_idempotent [of "''97 912-61-61''"]
  by (simp add: normalizePhone_def digits_of_def is_digit_def startsWith_def)

section \<open>Properties of the cache\<close>




section \<open>Properties of the balance lookup\<close>

text \<open>
  C2: with \<open>useCache = false\<close>, \<open>getCounterpartyByPhone\<close> returns what the counterparty
  search followed by the detail and balance fetch give, whatever the cache holds (also an
  unexpired document under the key of this phone), and leaves the cache as it was.
\<close>

theorem getCounterpartyByPhone_no_cache:
  "getCounterpartyByPhone a ttl tget tset c phone False =
     (case findCounterpartyByPhone a phone of
        None \<Rightarrow> None
      | Some b \<Rightarrow> if bi_id b = [] then None else getCounterpartyDetails a (bi_id b), c)"
  by (simp add: getCounterpartyByPhone_def Let_def split: option.splits)

theorem getCounterpartyByPhone_no_cache_witness:
  "Cache_get 1000 stale_cache ''counterparty:+998901234567'' = Some stale_record \<and>
   getCounterpartyByPhone sample_api 300 1000 1000 stale_cache ''+998901234567'' True
     = (Some stale_record, stale_cache) \<and>
   getCounterpartyByPhone sample_api 300 1000 1000 stale_cache ''+998901234567'' False
     = (Some \<lparr>cp_id = ''cp-1'', cp_name = ''Ali'', cp_phone = ''+998901234567'',
               cp_balance = - 50000, cp_status = debtor, cp_isBlocked = False\<rparr>, stale_cache)"
  using getCounterpartyByPhone_no_cache [of sample_api 300 1000 1000 stale_cache "''+998901234567''"]
  by (simp add: sample_find sample_details getCounterpartyByPhone_def Cache_get_def stale_cache_def)

text \<open>
  C7: the balance of a record returned by \<open>getCounterpartyDetails\<close> is the raw balance
  received (of the matching report row, else of the first account, else 0) divided by 100,
  once; the status is debtor below zero, creditor above zero and ok at zero.
\<close>

theorem getCounterpartyDetails_balance_status:
  assumes "getCounterpartyDetails a cid = Some r"
  shows "(\<exists>cp. detail a cid = Ok cp \<and>
            cp_balance r =
              (case report a of
                 Ok rd \<Rightarrow> (case report_row_for cid rd of
                             Some row \<Rightarrow> or_zero (rr_balance row)
                           | None \<Rightarrow> or_zero (first_account_balance cp))
               | NotOk \<Rightarrow> or_zero (first_account_balance cp)
               | Throws \<Rightarrow> 0) / 100) \<and>
         (cp_balance r < 0 \<longrightarrow> cp_status r = debtor) \<and>
         (cp_balance r > 0 \<longrightarrow> cp_status r = creditor) \<and>
         (cp_balance r = 0 \<longrightarrow> cp_status r = ok)"
  using assms
  by (auto simp: getCounterpartyDetails_def Let_def split: if_splits response.splits option.splits)

theorem getCounterpartyDetails_balance_status_witness:
  "getCounterpartyDetails sample_api ''cp-1'' =
     Some \<lparr>cp_id = ''cp-1'', cp_name = ''Ali'', cp_phone = ''+998901234567'',
           cp_balance = - 50000, cp_status = debtor, cp_isBlocked = False\<rparr> \<and>
   cp_balance \<lparr>cp_id = ''cp-1'', cp_name = ''Ali'', cp_phone = ''+998901234567'',
           cp_balance = - 50000, cp_status = debtor, cp_isBlocked = False\<rparr> = - 5000000 / 100"
  using getCounterpartyDetails_balance_status [OF sample_details]
  by (simp add: sample_details)



section \<open>Properties of the rate limiter\<close>




text \<open>
  C6: whatever the state of the limiter and whenever the tasks are submitted, the promise
  of each submitter is resolved with the value that its own task returned, or rejected
  with the error that its own task threw, for every queued and every submitted task in
  order: a task that throws does not end the loop, and the tasks behind it are
  dispatched.
\<close>

theorem processQueue_outcomes:
  "map (\<lambda>d. (d_caller d, outcome d)) (fst (processQueue L now subs)) =
   map (\<lambda>e. (caller e, case returns e of Inr result \<Rightarrow> Resolved result | Inl err \<Rightarrow> Rejected err))
     (queue L @ map snd subs)"
  by (rule processQueue_delivery)

theorem processQueue_outcomes_witness:
  "map (\<lambda>d. (d_caller d, outcome d))
     (fst (processQueue (RateLimiter 25 0) 0
        [(0, task 0 (Inr 10)), (10, task 1 (Inl ''boom'')), (500, task 2 (Inr 30))])) =
   [(0, Resolved 10), (1, Rejected ''boom''), (2, Resolved 30)] \<and>
   map dispatched_at
     (fst (processQueue (RateLimiter 25 0) 0
        [(0, task 0 (Inr 10)), (10, task 1 (Inl ''boom'')), (500, task 2 (Inr 30))])) =
   [0, 45, 500]"
proof -
  have t: "map dispatched_at
     (fst (processQueue (RateLimiter 25 0) 0
        [(0, task 0 (Inr 10)), (10, task 1 (Inl ''boom'')), (500, task 2 (Inr 30))])) =
   [0, 45, 500]"
    by code_simp
  show ?thesis
    using processQueue_outcomes [of "RateLimiter 25 0" 0
        "[(0, task 0 (Inr 10)), (10, task 1 (Inl ''boom'')), (500, task 2 (Inr 30))]"] t
    by (simp add: RateLimiter_def task_def)
qed

section \<open>Properties of the reminder sweep\<close>

text \<open>
  C3, as stated, at concrete inputs: a sweep over one active user whose phone matches no
  counterparty ends with skipped 0 and failed 1; and a debtor whose reminder was sent but
  whose record could not be saved has the outcome \<^verbatim>\<open>error\<close>, which is none of the five.
\<close>

theorem sweep_not_found_counterexample:
  "findCounterpartyByPhone sample_api (u_phone stranger) = None \<and>
   fst (processUser sample_services stranger stale_cache) = Failure not_found \<and>
   fst (sweep sample_services [stranger] \<lparr>sent = 0, skipped = 0, failed = 0\<rparr> stale_cache)
     = \<lparr>sent = 0, skipped = 0, failed = 1\<rparr> \<and>
   execute (sample_services\<lparr>activeUsers := \<lambda>w. Some [stranger]\<rparr>) False stale_cache
     = (Swept \<lparr>sent = 0, skipped = 0, failed = 1\<rparr>, False, stale_cache) \<and>
   fst (processUser (sample_services\<lparr>save := \<lambda>u w. (False, w)\<rparr>) debtor_user Map.empty)
     = Failure error"
proof -
  have a: "processUser sample_services stranger stale_cache = (Failure not_found, stale_cache)"
    by (simp add: processUser_def stranger_def stranger_lookup)
  have b: "fst (processUser (sample_services\<lparr>save := \<lambda>u w. (False, w)\<rparr>) debtor_user Map.empty)
     = Failure error"
    by (simp add: processUser_def debtor_user_def debtor_lookup sample_remind)
  have c: "processUser (sample_services\<lparr>activeUsers := \<lambda>w. Some [stranger]\<rparr>) stranger stale_cache
             = (Failure not_found, stale_cache)"
    by (simp add: processUser_def stranger_def stranger_lookup)
  have d: "execute (sample_services\<lparr>activeUsers := \<lambda>w. Some [stranger]\<rparr>) False stale_cache
     = (Swept \<lparr>sent = 0, skipped = 0, failed = 1\<rparr>, False, stale_cache)"
    by (simp add: execute_def c count_result_def sample_schedule)
  show ?thesis
    using a b d stranger_find by (simp add: count_result_def stranger_def)
qed

text \<open>
  C3, amended: every processed user adds one to exactly one of the three totals of the
  sweep: to sent when the reminder was sent, to skipped when the outcome is inactive or
  no_debt, and to failed when it is not_found, send_failed or error; in particular an
  active user whose phone has no matching counterparty has the outcome not_found and is
  counted among the failed, not among the skipped.
\<close>

theorem sweep_tally:
  "sent (fst (sweep sv us k w)) = sent k + length (filter succeeded (sweep_results sv us w)) \<and>
   skipped (fst (sweep sv us k w)) =
     skipped k + length (filter (\<lambda>r. r \<in> {Failure inactive, Failure no_debt}) (sweep_results sv us w)) \<and>
   failed (fst (sweep sv us k w)) =
     failed k + length (filter (\<lambda>r. r \<in> {Failure not_found, Failure send_failed, Failure error})
                          (sweep_results sv us w)) \<and>
   sent (fst (sweep sv us k w)) + skipped (fst (sweep sv us k w)) + failed (fst (sweep sv us k w))
     = sent k + skipped k + failed k + length us \<and>
   (is_active u \<and> fst (lookup sv (u_phone u) w) = None \<longrightarrow>
      fst (processUser sv u w) = Failure not_found \<and>
      fst (sweep sv [u] k w) = k\<lparr>failed := failed k + 1\<rparr>)"
proof -
  have "is_active u \<and> fst (lookup sv (u_phone u) w) = None \<longrightarrow>
      fst (processUser sv u w) = Failure not_found \<and>
      fst (sweep sv [u] k w) = k\<lparr>failed := failed k + 1\<rparr>"
    by (cases "lookup sv (u_phone u) w") (simp add: processUser_def count_result_def)
  then show ?thesis
    using foldl_count_result [of k "sweep_results sv us w"]
      foldl_count_total [of k "sweep_results sv us w"]
    by (simp add: sweep_foldl length_sweep_results)
qed

theorem sweep_tally_witness:
  "is_active stranger \<and> fst (lookup sample_services (u_phone stranger) stale_cache) = None \<and>
   fst (processUser sample_services stranger stale_cache) = Failure not_found \<and>
   fst (sweep sample_services [stranger] \<lparr>sent = 0, skipped = 0, failed = 0\<rparr> stale_cache)
     = \<lparr>sent = 0, skipped = 0, failed = 1\<rparr>"
  using sweep_tally [of sample_services "[]" "\<lparr>sent = 0, skipped = 0, failed = 0\<rparr>" stale_cache stranger]
    stranger_lookup
  by (simp add: stranger_def)

text \<open>
  C9: a call of \<open>execute\<close> made while the flag \<open>isRunning\<close> is set returns at once: it
  processes no user, sends nothing and changes nothing; the tick is counted as skipped;
  and over every sequence of ticks and sweep ends, at most one sweep is in progress.
\<close>

theorem execute_skips_while_running:
  "execute sv True w = (Skipped, True, w) \<and>
   (isRunning s \<longrightarrow> sender_step s TickFires = s\<lparr>skipped_ticks := skipped_ticks s + 1\<rparr>) \<and>
   in_progress (foldl sender_step DebtReminderSender evs) \<le> 1"
  by (simp add: execute_def sender_invariant)

theorem execute_skips_while_running_witness:
  "execute sample_services True stale_cache = (Skipped, True, stale_cache) \<and>
   isRunning (sender_step DebtReminderSender TickFires) \<and>
   foldl sender_step DebtReminderSender [TickFires, TickFires, SweepEnds, TickFires]
     = \<lparr>isRunning = True, in_progress = 1, skipped_ticks = 1\<rparr>"
  using execute_skips_while_running [of sample_services stale_cache
      "sender_step DebtReminderSender TickFires" "[TickFires, TickFires, SweepEnds, TickFires]"]
  by (simp add: DebtReminderSender_def)

end
